theory Spec2Isabelle
  imports Main "HOL-Library.Sublist"
begin

section \<open>Python values and the operations the uploader applies to them\<close>

text \<open>
  The uploader (\<^verbatim>\<open>zenodo_uploader.py\<close>) handles decoded JSON and YAML documents
  without declaring their types. A decoded document is a value of \<open>json\<close>; an object is
  the list of the items of the decoded \<^verbatim>\<open>dict\<close> (keys distinct, in insertion order).
  Numbers are integers, which is what the service uses for identifiers. A string is
  the list of the code points of a Python \<^verbatim>\<open>str\<close>, each below 256; text with other
  characters is not represented.
\<close>

datatype json =
    JNull
  | JBool bool
  | JInt int
  | JStr string
  | JArr "json list"
  | JObj "(string \<times> json) list"

text \<open>
  Every exception the program can raise is a value. \<open>HTTPError\<close> carries the status of
  the response that caused it, \<open>SystemExit\<close> the message given to \<^verbatim>\<open>exit\<close>.
\<close>

datatype error =
    KeyError string
  | TypeError
  | AttributeError
  | IndexError
  | NameError string
  | JSONDecodeError
  | ConnectionError
  | HTTPError nat
  | FileNotFoundError string
  | PermissionError string
  | IsADirectoryError string
  | MissingSchema string
  | InvalidSchema string
  | InvalidURL string
  | SystemExit string

text \<open>Truth value testing: \<^verbatim>\<open>if x\<close>, \<^verbatim>\<open>not x\<close>.\<close>

fun truthy :: "json \<Rightarrow> bool" where
  "truthy JNull = False"
| "truthy (JBool b) = b"
| "truthy (JInt n) = (n \<noteq> 0)"
| "truthy (JStr s) = (s \<noteq> [])"
| "truthy (JArr xs) = (xs \<noteq> [])"
| "truthy (JObj kvs) = (kvs \<noteq> [])"

text \<open>
  \<^verbatim>\<open>v[key]\<close> with a string key: a lookup in a dict, \<^verbatim>\<open>KeyError\<close> when the key is
  absent, \<^verbatim>\<open>TypeError\<close> on every other value.
\<close>

fun subscript :: "json \<Rightarrow> string \<Rightarrow> error + json" where
  "subscript (JObj kvs) k = (case map_of kvs k of None \<Rightarrow> Inl (KeyError k) | Some v \<Rightarrow> Inr v)"
| "subscript v k = Inl TypeError"

text \<open>
  Iteration, as in \<^verbatim>\<open>[hit for hit in v]\<close>: the elements of a list, the keys of a dict,
  the characters of a string; \<^verbatim>\<open>TypeError\<close> on a value that is not iterable.
\<close>

fun py_iter :: "json \<Rightarrow> error + json list" where
  "py_iter (JArr xs) = Inr xs"
| "py_iter (JObj kvs) = Inr (map (\<lambda>kv. JStr (fst kv)) kvs)"
| "py_iter (JStr s) = Inr (map (\<lambda>c. JStr [c]) s)"
| "py_iter v = Inl TypeError"

subsection \<open>Strings\<close>

text \<open>
  \<^verbatim>\<open>s.replace(old, new)\<close> replaces every occurrence of \<open>old\<close>, scanning from the
  left and continuing after each replaced occurrence. With an empty \<open>old\<close> Python puts
  \<open>new\<close> before every character and at the end.
\<close>

function py_replace :: "string \<Rightarrow> string \<Rightarrow> string \<Rightarrow> string" where
  "py_replace old new s =
     (if old = [] then new @ concat (map (\<lambda>c. c # new) s)
      else if s = [] then []
      else if take (length old) s = old
        then new @ py_replace old new (drop (length old) s)
      else hd s # py_replace old new (tl s))"
  by pat_completeness auto
termination
  by (relation "measure (\<lambda>(old, new, s). length s)") auto

declare py_replace.simps [simp del]

text \<open>\<^verbatim>\<open>sep.join(parts)\<close> on strings.\<close>

fun join_str :: "string \<Rightarrow> string list \<Rightarrow> string" where
  "join_str sep [] = []"
| "join_str sep [p] = p"
| "join_str sep (p # q # ps) = p @ sep @ join_str sep (q # ps)"

text \<open>Decimal digits of a natural number, and \<^verbatim>\<open>str\<close> of an integer.\<close>

definition digit_char :: "nat \<Rightarrow> char" where
  "digit_char d = ''0123456789ABCDEF'' ! (d mod 16)"

definition lower_digit_char :: "nat \<Rightarrow> char" where
  "lower_digit_char d = ''0123456789abcdef'' ! (d mod 16)"

fun decimal :: "nat \<Rightarrow> string" where
  "decimal n = (if n < 10 then [digit_char n] else decimal (n div 10) @ [digit_char (n mod 10)])"

declare decimal.simps [simp del]

definition str_int :: "int \<Rightarrow> string" where
  "str_int i = (if i < 0 then CHR ''-'' # decimal (nat (- i)) else decimal (nat i))"

text \<open>
  \<^verbatim>\<open>repr\<close> of a string: single quotes, unless the text has a single quote and no
  double quote; backslash, the quote in use, tab, newline and carriage return are
  escaped; every other character that is not printable is written \<^verbatim>\<open>\xNN\<close>. Below
  256 those are the control characters 0 to 31 and 127 to 159, the no-break space
  160 and the soft hyphen 173.
\<close>

definition printable :: "char \<Rightarrow> bool" where
  "printable c =
     (let n = (of_char c :: nat) in 32 \<le> n \<and> (n < 127 \<or> 160 < n) \<and> n \<noteq> 173)"

definition repr_char :: "char \<Rightarrow> char \<Rightarrow> string" where
  "repr_char q c =
     (if c = CHR 0x5C then [CHR 0x5C, CHR 0x5C]
      else if c = q then [CHR 0x5C, q]
      else if c = CHR 0x09 then [CHR 0x5C, CHR ''t'']
      else if c = CHR 0x0A then [CHR 0x5C, CHR ''n'']
      else if c = CHR 0x0D then [CHR 0x5C, CHR ''r'']
      else if printable c then [c]
      else [CHR 0x5C, CHR ''x'', lower_digit_char (of_char c div 16),
            lower_digit_char (of_char c mod 16)])"

definition repr_str :: "string \<Rightarrow> string" where
  "repr_str s =
     (let q = (if CHR 0x27 \<in> set s \<and> CHR 0x22 \<notin> set s then CHR 0x22 else CHR 0x27)
      in q # concat (map (repr_char q) s) @ [q])"

text \<open>\<^verbatim>\<open>repr\<close> of a decoded document; for a list or a dict it is also its \<^verbatim>\<open>str\<close>.\<close>

fun py_repr :: "json \<Rightarrow> string" where
  "py_repr JNull = ''None''"
| "py_repr (JBool b) = (if b then ''True'' else ''False'')"
| "py_repr (JInt i) = str_int i"
| "py_repr (JStr s) = repr_str s"
| "py_repr (JArr xs) = ''['' @ join_str '', '' (map py_repr xs) @ '']''"
| "py_repr (JObj kvs) =
     ''{'' @ join_str '', '' (map (\<lambda>kv. repr_str (fst kv) @ '': '' @ py_repr (snd kv)) kvs) @ ''}''"

text \<open>\<^verbatim>\<open>str(v)\<close>, which is what an f-string does with \<^verbatim>\<open>{v}\<close>.\<close>

fun py_str :: "json \<Rightarrow> string" where
  "py_str (JStr s) = s"
| "py_str v = py_repr v"

text \<open>What the methods \<^verbatim>\<open>.replace\<close> and \<^verbatim>\<open>.split\<close> do on a decoded value: only a string has them.\<close>

fun replace_method :: "json \<Rightarrow> string \<Rightarrow> string \<Rightarrow> error + json" where
  "replace_method (JStr s) old new = Inr (JStr (py_replace old new s))"
| "replace_method v old new = Inl AttributeError"

fun split_on :: "char \<Rightarrow> string \<Rightarrow> string list" where
  "split_on sep [] = [[]]"
| "split_on sep (c # cs) =
     (if c = sep then [] # split_on sep cs
      else (case split_on sep cs of [] \<Rightarrow> [[c]] | x # xs \<Rightarrow> (c # x) # xs))"

fun split_method :: "json \<Rightarrow> char \<Rightarrow> error + string list" where
  "split_method (JStr s) sep = Inr (split_on sep s)"
| "split_method v sep = Inl AttributeError"

subsection \<open>Arguments that are iterated\<close>

text \<open>
  The \<open>creators\<close> argument of the search is \<^verbatim>\<open>None\<close>, a list, or the generator the
  main program passes. A generator is the list of what each step yields or raises; it
  is true whatever it yields, a list is true when it is not empty.
\<close>

datatype py_iterable = ItNone | ItList "json list" | ItGen "(error + json) list"

fun truthy_iter :: "py_iterable \<Rightarrow> bool" where
  "truthy_iter ItNone = False"
| "truthy_iter (ItList xs) = (xs \<noteq> [])"
| "truthy_iter (ItGen ys) = True"

fun collect :: "(error + 'a) list \<Rightarrow> error + 'a list" where
  "collect [] = Inr []"
| "collect (Inl e # ys) = Inl e"
| "collect (Inr x # ys) = (case collect ys of Inl e \<Rightarrow> Inl e | Inr xs \<Rightarrow> Inr (x # xs))"

fun items_of :: "py_iterable \<Rightarrow> error + json list" where
  "items_of ItNone = Inl TypeError"
| "items_of (ItList xs) = Inr xs"
| "items_of (ItGen ys) = collect ys"

fun strings_of :: "json list \<Rightarrow> error + string list" where
  "strings_of [] = Inr []"
| "strings_of (JStr s # vs) = (case strings_of vs of Inl e \<Rightarrow> Inl e | Inr ss \<Rightarrow> Inr (s # ss))"
| "strings_of (v # vs) = Inl TypeError"

text \<open>
  \<^verbatim>\<open>sep.join(it)\<close> runs the iterable to its end first, then wants every item to be a
  string.
\<close>

definition join_method :: "string \<Rightarrow> py_iterable \<Rightarrow> error + string" where
  "join_method sep it =
     (case items_of it of
        Inl e \<Rightarrow> Inl e
      | Inr vs \<Rightarrow> (case strings_of vs of Inl e \<Rightarrow> Inl e | Inr ss \<Rightarrow> Inr (join_str sep ss)))"

subsection \<open>\<^verbatim>\<open>urllib.parse.urlencode\<close>\<close>

definition always_safe :: "char \<Rightarrow> bool" where
  "always_safe c =
     (c \<in> set ''ABCDEFGHIJKLMNOPQRSTUVWXYZabcdefghijklmnopqrstuvwxyz0123456789_.-~'')"

text \<open>
  \<^verbatim>\<open>quote_plus\<close> keeps the letters, the digits and four signs, writes a space as a
  plus sign, and writes every other character as the bytes of its UTF-8 encoding, each
  as a percent sign and two digits; a code point from 128 to 255 has two bytes.
\<close>

definition percent_byte :: "nat \<Rightarrow> string" where
  "percent_byte b = [CHR ''%'', digit_char (b div 16), digit_char (b mod 16)]"

definition quote_plus_char :: "char \<Rightarrow> string" where
  "quote_plus_char c =
     (if always_safe c then [c]
      else if c = CHR '' '' then ''+''
      else if (of_char c :: nat) < 128 then percent_byte (of_char c)
      else percent_byte (192 + of_char c div 64) @ percent_byte (128 + of_char c mod 64))"

definition quote_plus :: "string \<Rightarrow> string" where
  "quote_plus s = concat (map quote_plus_char s)"

fun urlencode :: "(string \<times> string) list \<Rightarrow> string" where
  "urlencode kvs = join_str ''&'' (map (\<lambda>kv. quote_plus (fst kv) @ ''='' @ quote_plus (snd kv)) kvs)"

section \<open>The remote service and the local machine\<close>

text \<open>
  A request is what \<^verbatim>\<open>requests.get\<close>, \<^verbatim>\<open>post\<close> or \<^verbatim>\<open>put\<close> is given, with the
  place in the program that sends it. The body is absent, a JSON document
  (\<^verbatim>\<open>json={}\<close>, \<^verbatim>\<open>data=json.dumps(...)\<close>) or the bytes of a file.
\<close>

datatype call_site =
  Search | CreateDeposition | NewVersion | FetchDeposition | UploadFile | AttachMetadata | Publish

datatype http_method = GET | POST | PUT

datatype payload = NoBody | JsonBody json | FileBody string

record request =
  call_site :: call_site
  http_method :: http_method
  url :: string
  params :: "(string \<times> string) list"
  payload :: payload
  headers :: "(string \<times> string) list"

text \<open>A response has a status and a body, which decodes as JSON or does not.\<close>

record response =
  status :: nat
  content :: "json option"

text \<open>
  The service answers a request knowing the requests sent before it; no answer is a
  connection failure. Every function that talks to the service takes the list of the
  requests sent so far and returns it with its own requests added at the end.
\<close>

type_synonym server = "request list \<Rightarrow> request \<Rightarrow> response option"

definition send :: "server \<Rightarrow> request \<Rightarrow> request list \<Rightarrow> (error + response) \<times> request list" where
  "send srv req log =
     ((case srv log req of None \<Rightarrow> Inl ConnectionError | Some r \<Rightarrow> Inr r), log @ [req])"

text \<open>Where the requests added to \<open>log\<close> on the way to \<open>log'\<close> were sent from.\<close>

definition calls_after :: "request list \<Rightarrow> request list \<Rightarrow> call_site list" where
  "calls_after log log' = map call_site (drop (length log) log')"

text \<open>\<^verbatim>\<open>Response.raise_for_status\<close> raises for the statuses 400 to 599.\<close>

definition raise_for_status :: "response \<Rightarrow> error + unit" where
  "raise_for_status r =
     (if 400 \<le> status r \<and> status r < 600 then Inl (HTTPError (status r)) else Inr ())"

definition response_json :: "response \<Rightarrow> error + json" where
  "response_json r = (case content r of None \<Rightarrow> Inl JSONDecodeError | Some d \<Rightarrow> Inr d)"

text \<open>
  Before it sends anything, \<^verbatim>\<open>requests\<close> parses the address and raises
  \<^verbatim>\<open>MissingSchema\<close> for one with no scheme (\<^verbatim>\<open>None/data.csv\<close>),
  \<^verbatim>\<open>InvalidSchema\<close> for a scheme other than \<^verbatim>\<open>http\<close> and \<^verbatim>\<open>https\<close>, and
  \<^verbatim>\<open>InvalidURL\<close> for one it cannot parse or with no host. The parser is the
  library's; its verdict on an address is taken from the machine the library is
  installed on.
\<close>

datatype verdict = Sendable | NoScheme | OtherScheme | Unparsable

text \<open>
  The local machine: what a path names (nothing, a directory, or a regular file with
  its bytes when it can be read), how \<^verbatim>\<open>os.path.abspath\<close> completes a path
  with the working directory, the value of \<^verbatim>\<open>ZENODO_ACCESS_TOKEN\<close>, what
  \<^verbatim>\<open>yaml.safe_load\<close> makes of a file's text, and the verdict of \<^verbatim>\<open>requests\<close> on
  an address.
\<close>

datatype node = Directory | RegularFile "string option"

record machine =
  abspath :: "string \<Rightarrow> string"
  lookup :: "string \<Rightarrow> node option"
  access_token :: "string option"
  safe_load :: "string \<Rightarrow> error + json"
  address :: "string \<Rightarrow> verdict"

definition check_address :: "machine \<Rightarrow> string \<Rightarrow> error + unit" where
  "check_address m u =
     (case address m u of
        Sendable \<Rightarrow> Inr ()
      | NoScheme \<Rightarrow> Inl (MissingSchema u)
      | OtherScheme \<Rightarrow> Inl (InvalidSchema u)
      | Unparsable \<Rightarrow> Inl (InvalidURL u))"

definition isfile :: "machine \<Rightarrow> string \<Rightarrow> bool" where
  "isfile m p = (case lookup m p of Some (RegularFile c) \<Rightarrow> True | _ \<Rightarrow> False)"

definition open_file :: "machine \<Rightarrow> string \<Rightarrow> error + string" where
  "open_file m p =
     (case lookup m p of
        None \<Rightarrow> Inl (FileNotFoundError p)
      | Some Directory \<Rightarrow> Inl (IsADirectoryError p)
      | Some (RegularFile None) \<Rightarrow> Inl (PermissionError p)
      | Some (RegularFile (Some bytes)) \<Rightarrow> Inr bytes)"

definition basename :: "string \<Rightarrow> string" where
  "basename p = rev (takeWhile (\<lambda>c. c \<noteq> CHR ''/'') (rev p))"

section \<open>The functions of \<^verbatim>\<open>zenodo_uploader.py\<close>\<close>

text \<open>
  Each function follows its source line by line. The progress messages written to
  standard output are left out; what a message evaluates is kept where it can raise
  (lines 37 and 117).
\<close>

definition sandbox_server :: string where
  "sandbox_server = ''https://sandbox.zenodo.org/api/''"

text \<open>\<^verbatim>\<open>xs[-1]\<close>.\<close>

fun last_item :: "'a list \<Rightarrow> error + 'a" where
  "last_item [] = Inl IndexError"
| "last_item (x # xs) = Inr (last (x # xs))"

subsection \<open>\<^verbatim>\<open>search_for_deposition\<close>\<close>

text \<open>Lines 17 to 23: the text of the query.\<close>

definition search_query :: "json \<Rightarrow> json \<Rightarrow> py_iterable \<Rightarrow> error + string" where
  "search_query title owner creators =
     (let search = ''metadata.title:\"'' @ py_str title @ ''\"'';
          search = (if truthy owner then search @ '' owners:'' @ py_str owner else search)
      in if truthy_iter creators
         then (case join_method ''\" OR \"'' creators of
                 Inl e \<Rightarrow> Inl e
               | Inr joined \<Rightarrow>
                   (let creators_query = ''\"'' @ joined @ ''\"'';
                        search = search @ '' metadata.creators.name:'' @ creators_query
                    in Inr (py_replace ''/'' '' '' search)))
         else Inr (py_replace ''/'' '' '' search))"

text \<open>Lines 25 to 28: the request, sent without a token.\<close>

definition search_request :: "string \<Rightarrow> string \<Rightarrow> request" where
  "search_request zenodo_server search =
     \<lparr>call_site = Search, http_method = GET,
      url = zenodo_server @ ''records?'' @ urlencode [(''q'', search), (''sort'', ''bestmatch'')],
      params = [], payload = NoBody, headers = []\<rparr>"

text \<open>
  The tuple that the search and both creating functions return (lines 38 to 42, 66 to
  70 and 85 to 89), its parts evaluated from left to right.
\<close>

definition deposition_fields :: "json \<Rightarrow> error + json \<times> json \<times> json" where
  "deposition_fields deposition =
     (case subscript deposition ''id'' of
        Inl e \<Rightarrow> Inl e
      | Inr ident \<Rightarrow>
     (case subscript deposition ''links'' of
        Inl e \<Rightarrow> Inl e
      | Inr links \<Rightarrow>
     (case subscript links ''bucket'' of
        Inl e \<Rightarrow> Inl e
      | Inr bucket \<Rightarrow>
     (case subscript links ''html'' of
        Inl e \<Rightarrow> Inl e
      | Inr html \<Rightarrow>
     (case replace_method html ''deposit'' ''record'' of
        Inl e \<Rightarrow> Inl e
      | Inr record_url \<Rightarrow> Inr (ident, bucket, record_url))))))"

text \<open>
  Lines 28 to 42, on the response to the search: the status is not looked at, the body
  is decoded and its hits are listed.
\<close>

definition search_result :: "response \<Rightarrow> error + json \<times> json \<times> json" where
  "search_result r =
     (case response_json r of
        Inl e \<Rightarrow> Inl e
      | Inr doc \<Rightarrow>
     (case subscript doc ''hits'' of
        Inl e \<Rightarrow> Inl e
      | Inr outer \<Rightarrow>
     (case subscript outer ''hits'' of
        Inl e \<Rightarrow> Inl e
      | Inr inner \<Rightarrow>
     (case py_iter inner of
        Inl e \<Rightarrow> Inl e
      | Inr records \<Rightarrow>
     (case records of
        [] \<Rightarrow> Inr (JNull, JNull, JNull)
      | deposition # rest \<Rightarrow>
          (case subscript deposition ''id'' of
             Inl e \<Rightarrow> Inl e
           | Inr shown \<Rightarrow> deposition_fields deposition))))))"

definition search_for_deposition ::
  "server \<Rightarrow> json \<Rightarrow> json \<Rightarrow> py_iterable \<Rightarrow> string \<Rightarrow> request list
     \<Rightarrow> (error + json \<times> json \<times> json) \<times> request list" where
  "search_for_deposition srv title owner creators zenodo_server log =
     (case search_query title owner creators of
        Inl e \<Rightarrow> (Inl e, log)
      | Inr search \<Rightarrow>
          (case send srv (search_request zenodo_server search) log of
             (Inl e, log1) \<Rightarrow> (Inl e, log1)
           | (Inr r, log1) \<Rightarrow> (search_result r, log1)))"

subsection \<open>\<^verbatim>\<open>create_new_version\<close>\<close>

definition newversion_request :: "string \<Rightarrow> json \<Rightarrow> string \<Rightarrow> request" where
  "newversion_request zenodo_server deposition_id token =
     \<lparr>call_site = NewVersion, http_method = POST,
      url = zenodo_server @ ''deposit/depositions/'' @ py_str deposition_id @ ''/actions/newversion'',
      params = [(''access_token'', token)], payload = NoBody, headers = []\<rparr>"

definition fetch_request :: "string \<Rightarrow> string \<Rightarrow> string \<Rightarrow> request" where
  "fetch_request zenodo_server new_deposition_id token =
     \<lparr>call_site = FetchDeposition, http_method = GET,
      url = zenodo_server @ ''deposit/depositions/'' @ new_deposition_id,
      params = [(''access_token'', token)], payload = NoBody, headers = []\<rparr>"

text \<open>Lines 53 to 57, on the response to the first request: the id of the new draft.\<close>

definition new_deposition_id_of :: "response \<Rightarrow> error + string" where
  "new_deposition_id_of r =
     (case raise_for_status r of
        Inl e \<Rightarrow> Inl e
      | Inr u \<Rightarrow>
     (case response_json r of
        Inl e \<Rightarrow> Inl e
      | Inr deposition \<Rightarrow>
     (case subscript deposition ''links'' of
        Inl e \<Rightarrow> Inl e
      | Inr links \<Rightarrow>
     (case subscript links ''latest_draft'' of
        Inl e \<Rightarrow> Inl e
      | Inr new_deposition_url \<Rightarrow>
     (case split_method new_deposition_url CHR ''/'' of
        Inl e \<Rightarrow> Inl e
      | Inr parts \<Rightarrow> last_item parts)))))"

text \<open>Lines 63 to 70, and 81 to 89: a checked response, decoded and read.\<close>

definition checked_deposition :: "response \<Rightarrow> error + json \<times> json \<times> json" where
  "checked_deposition r =
     (case raise_for_status r of
        Inl e \<Rightarrow> Inl e
      | Inr u \<Rightarrow>
     (case response_json r of
        Inl e \<Rightarrow> Inl e
      | Inr deposition \<Rightarrow> deposition_fields deposition))"

definition create_new_version ::
  "server \<Rightarrow> json \<Rightarrow> string \<Rightarrow> string \<Rightarrow> request list
     \<Rightarrow> (error + json \<times> json \<times> json) \<times> request list" where
  "create_new_version srv deposition_id token zenodo_server log =
     (case send srv (newversion_request zenodo_server deposition_id token) log of
        (Inl e, log1) \<Rightarrow> (Inl e, log1)
      | (Inr r, log1) \<Rightarrow>
     (case new_deposition_id_of r of
        Inl e \<Rightarrow> (Inl e, log1)
      | Inr new_deposition_id \<Rightarrow>
     (case send srv (fetch_request zenodo_server new_deposition_id token) log1 of
        (Inl e, log2) \<Rightarrow> (Inl e, log2)
      | (Inr r2, log2) \<Rightarrow> (checked_deposition r2, log2))))"

subsection \<open>\<^verbatim>\<open>create_new_deposition\<close>\<close>

definition create_request :: "string \<Rightarrow> string \<Rightarrow> request" where
  "create_request zenodo_server token =
     \<lparr>call_site = CreateDeposition, http_method = POST,
      url = zenodo_server @ ''deposit/depositions'',
      params = [(''access_token'', token)], payload = JsonBody (JObj []),
      headers = [(''Content-Type'', ''application/json'')]\<rparr>"

definition create_new_deposition ::
  "server \<Rightarrow> string \<Rightarrow> string \<Rightarrow> request list
     \<Rightarrow> (error + json \<times> json \<times> json) \<times> request list" where
  "create_new_deposition srv token zenodo_server log =
     (case send srv (create_request zenodo_server token) log of
        (Inl e, log1) \<Rightarrow> (Inl e, log1)
      | (Inr r, log1) \<Rightarrow> (checked_deposition r, log1))"

subsection \<open>\<^verbatim>\<open>upload_to_zenodo\<close>\<close>

definition upload_request :: "json \<Rightarrow> string \<Rightarrow> string \<Rightarrow> string \<Rightarrow> request" where
  "upload_request bucket_url filebase token bytes =
     \<lparr>call_site = UploadFile, http_method = PUT,
      url = py_str bucket_url @ ''/'' @ filebase,
      params = [(''access_token'', token)], payload = FileBody bytes, headers = []\<rparr>"

text \<open>
  The address of this request starts with what the service gave as the bucket link,
  which may be anything (\<^verbatim>\<open>None\<close> gives \<^verbatim>\<open>None/data.csv\<close>); when \<^verbatim>\<open>requests\<close>
  refuses the address, nothing is sent. The file is opened first. The addresses of
  the other six requests start with the server address, for which the program always
  passes the default.
\<close>

definition upload_to_zenodo ::
  "machine \<Rightarrow> server \<Rightarrow> string \<Rightarrow> json \<Rightarrow> json \<Rightarrow> string \<Rightarrow> string \<Rightarrow> request list
     \<Rightarrow> (error + unit) \<times> request list" where
  "upload_to_zenodo m srv filename bucket_url file_url filebase token log =
     (case open_file m filename of
        Inl e \<Rightarrow> (Inl e, log)
      | Inr bytes \<Rightarrow>
          (case check_address m (url (upload_request bucket_url filebase token bytes)) of
             Inl e \<Rightarrow> (Inl e, log)
           | Inr u \<Rightarrow>
               (case send srv (upload_request bucket_url filebase token bytes) log of
                  (Inl e, log1) \<Rightarrow> (Inl e, log1)
                | (Inr r, log1) \<Rightarrow> (raise_for_status r, log1))))"

subsection \<open>\<^verbatim>\<open>add_meta_data\<close>\<close>

text \<open>
  Line 117 reads \<^verbatim>\<open>filename\<close>, which is neither a parameter nor assigned in the
  function, so Python looks it up among the names bound at module level (no built-in
  has that name). \<open>globals\<close> is the list of those names.
\<close>

definition metadata_request :: "string \<Rightarrow> json \<Rightarrow> json \<Rightarrow> string \<Rightarrow> request" where
  "metadata_request zenodo_server deposition_id meta_data token =
     \<lparr>call_site = AttachMetadata, http_method = PUT,
      url = zenodo_server @ ''deposit/depositions/'' @ py_str deposition_id,
      params = [(''access_token'', token)], payload = JsonBody meta_data,
      headers = [(''Content-Type'', ''application/json'')]\<rparr>"

definition add_meta_data ::
  "string list \<Rightarrow> server \<Rightarrow> json \<Rightarrow> json \<Rightarrow> string \<Rightarrow> string \<Rightarrow> request list
     \<Rightarrow> (error + unit) \<times> request list" where
  "add_meta_data globals srv deposition_id meta_data token zenodo_server log =
     (if ''filename'' \<in> set globals
      then (case send srv (metadata_request zenodo_server deposition_id meta_data token) log of
              (Inl e, log1) \<Rightarrow> (Inl e, log1)
            | (Inr r, log1) \<Rightarrow> (raise_for_status r, log1))
      else (Inl (NameError ''filename''), log))"

subsection \<open>\<^verbatim>\<open>publish_file\<close>\<close>

definition publish_request :: "string \<Rightarrow> json \<Rightarrow> string \<Rightarrow> request" where
  "publish_request zenodo_server deposition_id token =
     \<lparr>call_site = Publish, http_method = POST,
      url = zenodo_server @ ''/'' @ py_str deposition_id @ ''/actions/publish'',
      params = [(''access_token'', token)], payload = NoBody, headers = []\<rparr>"

definition publish_file ::
  "server \<Rightarrow> json \<Rightarrow> string \<Rightarrow> string \<Rightarrow> string \<Rightarrow> request list
     \<Rightarrow> (error + unit) \<times> request list" where
  "publish_file srv deposition_id filebase token zenodo_server log =
     (case send srv (publish_request zenodo_server deposition_id token) log of
        (Inl e, log1) \<Rightarrow> (Inl e, log1)
      | (Inr r, log1) \<Rightarrow> (raise_for_status r, log1))"

section \<open>The main program\<close>

text \<open>
  The names bound at module level while the loop of line 191 runs: the imports, the
  six functions, and the variables assigned from line 145 to line 193. The three
  names assigned at line 199 do not matter to any lookup a function makes.
\<close>

definition module_names :: "string list" where
  "module_names =
     [''os'', ''argparse'', ''requests'', ''yaml'', ''json'', ''urlencode'',
      ''search_for_deposition'', ''create_new_version'', ''create_new_deposition'',
      ''upload_to_zenodo'', ''add_meta_data'', ''publish_file'',
      ''parser'', ''args'', ''token'', ''config_file'', ''fp'', ''meta_data'',
      ''file'', ''filename'', ''filebase'']"

text \<open>Lines 205 to 222: the branch taken when the id the search returned is false.\<close>

definition new_deposition_path ::
  "machine \<Rightarrow> server \<Rightarrow> json \<Rightarrow> string \<Rightarrow> bool \<Rightarrow> string \<Rightarrow> string \<Rightarrow> request list
     \<Rightarrow> (error + unit) \<times> request list" where
  "new_deposition_path m srv meta_data token publish file filebase log =
     (case create_new_deposition srv token sandbox_server log of
        (Inl e, log1) \<Rightarrow> (Inl e, log1)
      | (Inr (deposition_id, bucket_url, file_url), log1) \<Rightarrow>
     (case upload_to_zenodo m srv file bucket_url file_url filebase token log1 of
        (Inl e, log2) \<Rightarrow> (Inl e, log2)
      | (Inr u, log2) \<Rightarrow>
     (case add_meta_data module_names srv deposition_id meta_data token sandbox_server log2 of
        (Inl e, log3) \<Rightarrow> (Inl e, log3)
      | (Inr u, log3) \<Rightarrow>
          (if publish then publish_file srv deposition_id filebase token sandbox_server log3
           else (Inr (), log3)))))"

text \<open>Lines 224 to 238: the other branch.\<close>

definition new_version_path ::
  "machine \<Rightarrow> server \<Rightarrow> json \<Rightarrow> string \<Rightarrow> bool \<Rightarrow> string \<Rightarrow> string \<Rightarrow> request list
     \<Rightarrow> (error + unit) \<times> request list" where
  "new_version_path m srv found_id token publish file filebase log =
     (case create_new_version srv found_id token sandbox_server log of
        (Inl e, log1) \<Rightarrow> (Inl e, log1)
      | (Inr (deposition_id, bucket_url, file_url), log1) \<Rightarrow>
     (case upload_to_zenodo m srv file bucket_url file_url filebase token log1 of
        (Inl e, log2) \<Rightarrow> (Inl e, log2)
      | (Inr u, log2) \<Rightarrow>
          (if publish then publish_file srv deposition_id filebase token sandbox_server log2
           else (Inr (), log2))))"

text \<open>
  Lines 200 and 201: the arguments of the search. The title is read first; the
  generator is made from the creators at once, and reads each name only when the
  search joins the names.
\<close>

definition search_arguments :: "json \<Rightarrow> error + json \<times> py_iterable" where
  "search_arguments meta_data =
     (case subscript meta_data ''metadata'' of
        Inl e \<Rightarrow> Inl e
      | Inr metadata \<Rightarrow>
     (case subscript metadata ''title'' of
        Inl e \<Rightarrow> Inl e
      | Inr title \<Rightarrow>
     (case subscript metadata ''creators'' of
        Inl e \<Rightarrow> Inl e
      | Inr creators \<Rightarrow>
     (case py_iter creators of
        Inl e \<Rightarrow> Inl e
      | Inr each \<Rightarrow> Inr (title, ItGen (map (\<lambda>creator. subscript creator ''name'') each))))))"

text \<open>Lines 192 to 238: the body of the loop, for one file.\<close>

definition process_file ::
  "machine \<Rightarrow> server \<Rightarrow> json \<Rightarrow> string \<Rightarrow> bool \<Rightarrow> string \<Rightarrow> request list
     \<Rightarrow> (error + unit) \<times> request list" where
  "process_file m srv meta_data token publish file log =
     (let filename = abspath m file;
          filebase = basename filename
      in if \<not> isfile m filename then (Inl (FileNotFoundError filename), log)
         else
           (case search_arguments meta_data of
              Inl e \<Rightarrow> (Inl e, log)
            | Inr (title, creators) \<Rightarrow>
           (case search_for_deposition srv title JNull creators sandbox_server log of
              (Inl e, log1) \<Rightarrow> (Inl e, log1)
            | (Inr (deposition_id, bucket_url, file_url), log1) \<Rightarrow>
                (if \<not> truthy deposition_id
                 then new_deposition_path m srv meta_data token publish file filebase log1
                 else new_version_path m srv deposition_id token publish file filebase log1))))"

text \<open>Line 191: the files in the order given; an exception ends the run.\<close>

fun upload_files ::
  "machine \<Rightarrow> server \<Rightarrow> json \<Rightarrow> string \<Rightarrow> bool \<Rightarrow> string list \<Rightarrow> request list
     \<Rightarrow> (error + unit) \<times> request list" where
  "upload_files m srv meta_data token publish [] log = (Inr (), log)"
| "upload_files m srv meta_data token publish (file # files) log =
     (case process_file m srv meta_data token publish file log of
        (Inl e, log1) \<Rightarrow> (Inl e, log1)
      | (Inr u, log1) \<Rightarrow> upload_files m srv meta_data token publish files log1)"

text \<open>The parsed command line (lines 145 to 168).\<close>

record args =
  files_to_upload :: "string list"
  config_file :: string
  publish :: bool

text \<open>
  Lines 170 to 189: the token, the configuration file and its metadata. Any exception
  of line 187 becomes an exit with a message.
\<close>

definition no_token_message :: string where
  "no_token_message =
     ''No access token provided!'' @ [CHR 0x0A] @
     ''Please create an environment variable with the token.'' @ [CHR 0x0A] @
     ''Variable Name: `ZENODO_ACCESS_TOKEN`''"

definition no_metadata_message :: "string \<Rightarrow> string" where
  "no_metadata_message path = ''Please add metadata to the config file: '' @ path"

definition load_meta_data :: "machine \<Rightarrow> args \<Rightarrow> error + string \<times> json" where
  "load_meta_data m a =
     (case access_token m of
        None \<Rightarrow> Inl (SystemExit no_token_message)
      | Some token \<Rightarrow>
          (if token = [] then Inl (SystemExit no_token_message)
           else
             (let path = abspath m (config_file a)
              in if \<not> isfile m path then Inl (FileNotFoundError path)
                 else
                   (case open_file m path of
                      Inl e \<Rightarrow> Inl e
                    | Inr text \<Rightarrow>
                        (case safe_load m text of
                           Inl e \<Rightarrow> Inl (SystemExit (no_metadata_message path))
                         | Inr doc \<Rightarrow>
                             (case subscript doc ''zenodo_metadata'' of
                                Inl e \<Rightarrow> Inl (SystemExit (no_metadata_message path))
                              | Inr meta_data \<Rightarrow> Inr (token, meta_data)))))))"

definition main :: "machine \<Rightarrow> server \<Rightarrow> args \<Rightarrow> (error + unit) \<times> request list" where
  "main m srv a =
     (case load_meta_data m a of
        Inl e \<Rightarrow> (Inl e, [])
      | Inr (token, meta_data) \<Rightarrow>
          upload_files m srv meta_data token (publish a) (files_to_upload a) [])"

section \<open>The specification's wording, where it differs from the program\<close>

text \<open>
  The query as the specification words it: the three parts put together and every
  slash taken out.
\<close>

definition query_as_specified :: "string \<Rightarrow> string \<Rightarrow> string \<Rightarrow> string \<Rightarrow> string" where
  "query_as_specified t ownr a b =
     filter (\<lambda>c. c \<noteq> CHR ''/'')
       (''metadata.title:\"'' @ t @ ''\" owners:'' @ ownr @
        '' metadata.creators.name:\"'' @ a @ ''\" OR \"'' @ b @ ''\"'')"

text \<open>A substitution made once: only the first occurrence of \<open>old\<close> is replaced.\<close>

fun substitute_once :: "string \<Rightarrow> string \<Rightarrow> string \<Rightarrow> string" where
  "substitute_once old new [] = []"
| "substitute_once old new (c # cs) =
     (if take (length old) (c # cs) = old then new @ drop (length old) (c # cs)
      else c # substitute_once old new cs)"

section \<open>A sample run\<close>

text \<open>
  A machine with one file to upload, the metadata of the specification's scenario, and
  a service that answers the search with a given response and every other request
  with success.
\<close>

definition sample_machine :: machine where
  "sample_machine =
     \<lparr>abspath = (\<lambda>p. if take 1 p = ''/'' then p else ''/home/user/'' @ p),
      lookup = (\<lambda>p. if p = ''data.csv'' \<or> p = ''/home/user/data.csv''
                     then Some (RegularFile (Some ''a,b'')) else None),
      access_token = Some ''secret'',
      safe_load = (\<lambda>t. Inl TypeError),
      address = (\<lambda>u. if take 8 u = ''https://'' \<or> take 7 u = ''http://'' then Sendable
                      else if CHR '':'' \<in> set u then OtherScheme
                      else NoScheme)\<rparr>"

definition sample_meta_data :: json where
  "sample_meta_data =
     JObj [(''metadata'',
            JObj [(''title'', JStr ''Sample Dataset''),
                  (''creators'', JArr [JObj [(''name'', JStr ''A. Researcher'')]])])]"

definition sample_deposition :: "json \<Rightarrow> string \<Rightarrow> json" where
  "sample_deposition ident html =
     JObj [(''id'', ident),
           (''links'',
            JObj [(''bucket'', JStr ''https://sandbox.zenodo.org/api/files/b1''),
                  (''html'', JStr html),
                  (''latest_draft'',
                   JStr ''https://sandbox.zenodo.org/api/deposit/depositions/43'')])]"

definition sample_hits :: "json list \<Rightarrow> json" where
  "sample_hits records = JObj [(''hits'', JObj [(''hits'', JArr records)])]"

definition sample_service :: "response \<Rightarrow> server" where
  "sample_service search_response log req =
     (case call_site req of
        Search \<Rightarrow> Some search_response
      | CreateDeposition \<Rightarrow>
          Some \<lparr>status = 201,
                content = Some (sample_deposition (JInt 50) ''https://sandbox.zenodo.org/deposit/50'')\<rparr>
      | NewVersion \<Rightarrow>
          Some \<lparr>status = 201,
                content = Some (sample_deposition (JInt 42) ''https://sandbox.zenodo.org/deposit/42'')\<rparr>
      | FetchDeposition \<Rightarrow>
          Some \<lparr>status = 200,
                content = Some (sample_deposition (JInt 43) ''https://sandbox.zenodo.org/deposit/43'')\<rparr>
      | UploadFile \<Rightarrow> Some \<lparr>status = 200, content = Some (JObj [])\<rparr>
      | AttachMetadata \<Rightarrow> Some \<lparr>status = 200, content = Some (JObj [])\<rparr>
      | Publish \<Rightarrow> Some \<lparr>status = 202, content = Some (JObj [])\<rparr>)"

section \<open>Properties\<close>

subsection \<open>Strings\<close>

lemma replace_char:
  "py_replace [c] [d] s = map (\<lambda>x. if x = c then d else x) s"
proof (induction s)
  case Nil
  show ?case by (subst py_replace.simps) simp
next
  case (Cons a s)
  show ?case by (subst py_replace.simps) (simp add: Cons)
qed

lemma split_on_not_empty: "split_on sep s \<noteq> []"
  by (induction s) (auto split: list.splits)

lemma split_on_no_separator: "sep \<notin> set s \<Longrightarrow> split_on sep s = [s]"
  by (induction s) auto

lemma length_split_on:
  "length (split_on sep s) = Suc (length (filter (\<lambda>c. c = sep) s))"
  by (induction s) (auto split: list.splits)

lemma last_split_on:
  "sep \<notin> set seg \<Longrightarrow> last (split_on sep (front @ sep # seg)) = seg"
proof (induction front)
  case Nil
  then show ?case by (simp add: split_on_no_separator)
next
  case (Cons c front)
  obtain x y ys where parts: "split_on sep (front @ sep # seg) = x # y # ys"
    using length_split_on [of sep "front @ sep # seg"]
    by (cases "split_on sep (front @ sep # seg)"; cases "tl (split_on sep (front @ sep # seg))") auto
  with Cons show ?case by auto
qed

lemma last_item_split_on:
  "sep \<notin> set seg \<Longrightarrow> last_item (split_on sep (front @ sep # seg)) = Inr seg"
  using last_split_on [of sep seg front] split_on_not_empty [of sep "front @ sep # seg"]
  by (cases "split_on sep (front @ sep # seg)") simp_all

subsection \<open>What each function sends\<close>

lemma snd_send: "snd (send srv req log) = log @ [req]"
  by (simp add: send_def)

lemma publish_file_log: "snd (publish_file srv i fb tok s log) = log @ [publish_request s i tok]"
  by (simp add: publish_file_def send_def split: option.splits)

lemma calls_after_append [simp]: "calls_after log (log @ reqs) = map call_site reqs"
  by (simp add: calls_after_def)

lemma calls_after_same [simp]: "calls_after log log = []"
  by (simp add: calls_after_def)

lemma create_new_deposition_log:
  "snd (create_new_deposition srv tok zs log) = log @ [create_request zs tok]"
  by (simp add: create_new_deposition_def send_def split: option.splits)

lemma upload_to_zenodo_log:
  "upload_to_zenodo m srv fn b u fb tok log = (x, log') \<Longrightarrow>
     (\<exists>e. x = Inl e \<and> log' = log) \<or> (\<exists>bytes. log' = log @ [upload_request b fb tok bytes])"
  by (auto simp: upload_to_zenodo_def check_address_def send_def
      split: sum.splits option.splits verdict.splits)

lemma add_meta_data_log:
  "add_meta_data g srv i md tok zs log = (x, log') \<Longrightarrow>
     (\<exists>e. x = Inl e \<and> log' = log) \<or> log' = log @ [metadata_request zs i md tok]"
  by (auto simp: add_meta_data_def send_def split: sum.splits option.splits if_splits)

lemma create_new_version_log:
  "create_new_version srv i tok zs log = (x, log') \<Longrightarrow>
     (\<exists>e. x = Inl e \<and> log' = log @ [newversion_request zs i tok])
     \<or> (\<exists>n. log' = log @ [newversion_request zs i tok, fetch_request zs n tok])"
  by (auto simp: create_new_version_def send_def split: sum.splits option.splits)

lemma search_for_deposition_log:
  "search_for_deposition srv t ownr cs zs log = (x, log') \<Longrightarrow>
     (\<exists>e. x = Inl e \<and> log' = log) \<or> (\<exists>q. search_query t ownr cs = Inr q \<and> log' = log @ [search_request zs q])"
  by (auto simp: search_for_deposition_def send_def split: sum.splits option.splits)

lemma new_deposition_path_calls:
  assumes "new_deposition_path m srv md tok pub file fb log = (x, log')"
  shows "\<exists>reqs. log' = log @ create_request sandbox_server tok # reqs
           \<and> prefix (map call_site reqs) [UploadFile, AttachMetadata, Publish]
           \<and> (x = Inr () \<longrightarrow> map call_site reqs = [UploadFile, AttachMetadata] @ (if pub then [Publish] else []))"
  using assms
  apply (simp add: new_deposition_path_def split: prod.splits sum.splits if_splits)
  apply (auto simp: create_new_deposition_def send_def upload_to_zenodo_def check_address_def
        add_meta_data_def module_names_def publish_file_def
        upload_request_def metadata_request_def publish_request_def
        split: sum.splits option.splits if_splits verdict.splits)
  done

lemma new_version_path_calls:
  assumes "new_version_path m srv i tok pub file fb log = (x, log')"
  shows "\<exists>reqs. log' = log @ newversion_request sandbox_server i tok # reqs
           \<and> prefix (map call_site reqs) [FetchDeposition, UploadFile, Publish]
           \<and> (x = Inr () \<longrightarrow> map call_site reqs = [FetchDeposition, UploadFile] @ (if pub then [Publish] else []))"
  using assms
  apply (simp add: new_version_path_def split: prod.splits sum.splits if_splits)
  apply (auto simp: create_new_version_def send_def upload_to_zenodo_def check_address_def
        publish_file_def
        upload_request_def fetch_request_def publish_request_def
        split: sum.splits option.splits if_splits verdict.splits)
  done

subsection \<open>The response to the search\<close>

lemma search_result_first_hit:
  assumes "content r = Some doc"
    and "subscript doc ''hits'' = Inr outer"
    and "subscript outer ''hits'' = Inr (JArr (hit # rest))"
    and "subscript hit ''id'' = Inr ident"
    and "subscript hit ''links'' = Inr links"
    and "subscript links ''bucket'' = Inr bucket"
    and "subscript links ''html'' = Inr (JStr html)"
  shows "search_result r = Inr (ident, bucket, JStr (py_replace ''deposit'' ''record'' html))"
  using assms by (simp add: search_result_def response_json_def deposition_fields_def)

lemma search_result_no_hit:
  assumes "content r = Some doc"
    and "subscript doc ''hits'' = Inr outer"
    and "subscript outer ''hits'' = Inr inner"
    and "py_iter inner = Inr []"
  shows "search_result r = Inr (JNull, JNull, JNull)"
  using assms by (simp add: search_result_def response_json_def)

lemma search_for_deposition_answered:
  assumes "search_query title ownr creators = Inr q"
    and "srv log (search_request zs q) = Some r"
  shows "search_for_deposition srv title ownr creators zs log =
           (search_result r, log @ [search_request zs q])"
  using assms by (simp add: search_for_deposition_def send_def)

lemma process_file_branches:
  assumes "isfile m (abspath m fpath)"
    and "search_arguments meta_data = Inr (title, creators)"
    and "search_for_deposition srv title JNull creators sandbox_server log =
           (Inr (found_id, bucket, record_url), log1)"
  shows "process_file m srv meta_data token pub fpath log =
           (if truthy found_id
            then new_version_path m srv found_id token pub fpath (basename (abspath m fpath)) log1
            else new_deposition_path m srv meta_data token pub fpath (basename (abspath m fpath)) log1)"
  using assms by (simp add: process_file_def)

lemma new_deposition_path_starts:
  "\<exists>reqs. snd (new_deposition_path m srv md tok pub fpath fb log) =
            log @ create_request sandbox_server tok # reqs
          \<and> set (map call_site reqs) \<subseteq> {UploadFile, AttachMetadata, Publish}"
proof -
  obtain x log' where run: "new_deposition_path m srv md tok pub fpath fb log = (x, log')"
    by (cases "new_deposition_path m srv md tok pub fpath fb log")
  from new_deposition_path_calls [OF run] obtain reqs where
    "log' = log @ create_request sandbox_server tok # reqs"
    "prefix (map call_site reqs) [UploadFile, AttachMetadata, Publish]"
    by blast
  then show ?thesis
    using run set_mono_prefix [of "map call_site reqs" "[UploadFile, AttachMetadata, Publish]"]
    by auto
qed

subsection \<open>The sample run\<close>

lemmas eval_simps =
  search_for_deposition_def search_query_def join_method_def search_request_def send_def
  search_result_def response_json_def deposition_fields_def sample_service_def sample_hits_def
  sample_deposition_def sandbox_server_def py_replace.simps

lemmas run_simps =
  process_file_def isfile_def search_arguments_def search_for_deposition_def search_query_def
  join_method_def search_request_def send_def search_result_def response_json_def
  deposition_fields_def new_deposition_path_def new_version_path_def create_new_deposition_def
  create_new_version_def new_deposition_id_of_def checked_deposition_def raise_for_status_def
  upload_to_zenodo_def open_file_def check_address_def add_meta_data_def publish_file_def
  module_names_def
  create_request_def newversion_request_def fetch_request_def upload_request_def
  metadata_request_def publish_request_def basename_def calls_after_def
  sample_machine_def sample_meta_data_def sample_service_def sample_hits_def
  sample_deposition_def sandbox_server_def py_replace.simps

lemma sample_file: "isfile sample_machine (abspath sample_machine ''data.csv'')"
  by (simp add: isfile_def sample_machine_def)

lemma sample_arguments:
  "search_arguments sample_meta_data =
     Inr (JStr ''Sample Dataset'', ItGen [Inr (JStr ''A. Researcher'')])"
  by (simp add: search_arguments_def sample_meta_data_def)

lemma sample_query:
  "search_query (JStr ''Sample Dataset'') JNull (ItGen [Inr (JStr ''A. Researcher'')]) =
     Inr ''metadata.title:\"Sample Dataset\" metadata.creators.name:\"A. Researcher\"''"
  by (simp add: search_query_def join_method_def py_replace.simps)

subsection \<open>The calls that check the status\<close>

text \<open>
  Each of the six requests other than the search raises \<^verbatim>\<open>HTTPError\<close> with the
  status of a response from 400 to 599, and is then the last request of its function.
  In both branches of the main program an \<^verbatim>\<open>HTTPError\<close> comes from the response to
  the last request sent.
\<close>

lemma raise_for_status_error:
  "400 \<le> status r \<Longrightarrow> status r < 600 \<Longrightarrow> raise_for_status r = Inl (HTTPError (status r))"
  by (simp add: raise_for_status_def)

lemma create_new_deposition_raises:
  "srv log (create_request zs tok) = Some r \<Longrightarrow> 400 \<le> status r \<Longrightarrow> status r < 600 \<Longrightarrow>
   create_new_deposition srv tok zs log = (Inl (HTTPError (status r)), log @ [create_request zs tok])"
  by (simp add: create_new_deposition_def send_def checked_deposition_def raise_for_status_def)

lemma create_new_version_raises:
  "srv log (newversion_request zs i tok) = Some r \<Longrightarrow> 400 \<le> status r \<Longrightarrow> status r < 600 \<Longrightarrow>
   create_new_version srv i tok zs log = (Inl (HTTPError (status r)), log @ [newversion_request zs i tok])"
  by (simp add: create_new_version_def send_def new_deposition_id_of_def raise_for_status_def)

lemma fetch_raises:
  "srv log (newversion_request zs i tok) = Some ra \<Longrightarrow> new_deposition_id_of ra = Inr n \<Longrightarrow>
   srv (log @ [newversion_request zs i tok]) (fetch_request zs n tok) = Some r \<Longrightarrow>
   400 \<le> status r \<Longrightarrow> status r < 600 \<Longrightarrow>
   create_new_version srv i tok zs log =
     (Inl (HTTPError (status r)), log @ [newversion_request zs i tok, fetch_request zs n tok])"
  by (simp add: create_new_version_def send_def checked_deposition_def raise_for_status_def)

lemma upload_to_zenodo_raises:
  "open_file m fname = Inr bytes \<Longrightarrow> address m (url (upload_request b fb tok bytes)) = Sendable \<Longrightarrow>
   srv log (upload_request b fb tok bytes) = Some r \<Longrightarrow>
   400 \<le> status r \<Longrightarrow> status r < 600 \<Longrightarrow>
   upload_to_zenodo m srv fname b u fb tok log =
     (Inl (HTTPError (status r)), log @ [upload_request b fb tok bytes])"
  by (simp add: upload_to_zenodo_def check_address_def send_def raise_for_status_def)

lemma add_meta_data_raises:
  "''filename'' \<in> set g \<Longrightarrow> srv log (metadata_request zs i md tok) = Some r \<Longrightarrow>
   400 \<le> status r \<Longrightarrow> status r < 600 \<Longrightarrow>
   add_meta_data g srv i md tok zs log =
     (Inl (HTTPError (status r)), log @ [metadata_request zs i md tok])"
  by (simp add: add_meta_data_def send_def raise_for_status_def)

lemma publish_file_raises:
  "srv log (publish_request zs i tok) = Some r \<Longrightarrow> 400 \<le> status r \<Longrightarrow> status r < 600 \<Longrightarrow>
   publish_file srv i fb tok zs log = (Inl (HTTPError (status r)), log @ [publish_request zs i tok])"
  by (simp add: publish_file_def send_def raise_for_status_def)

lemma subscript_no_http_error [simp]: "subscript v k \<noteq> Inl (HTTPError s)"
  by (cases v) (auto split: option.splits)

lemma replace_method_no_http_error [simp]: "replace_method v old new \<noteq> Inl (HTTPError s)"
  by (cases v) auto

lemma deposition_fields_no_http_error [simp]: "deposition_fields d \<noteq> Inl (HTTPError s)"
  by (auto simp: deposition_fields_def split: sum.splits)

lemma checked_deposition_http_error:
  "checked_deposition r = Inl (HTTPError s) \<Longrightarrow> status r = s"
  by (auto simp: checked_deposition_def raise_for_status_def response_json_def
      split: sum.splits option.splits if_splits)

lemma new_deposition_path_http_error:
  "new_deposition_path m srv md tok pub fpath fb log = (Inl (HTTPError s), log') \<Longrightarrow>
   \<exists>front req r. log' = front @ [req] \<and> srv front req = Some r \<and> status r = s"
  by (auto simp: new_deposition_path_def create_new_deposition_def send_def
      raise_for_status_def upload_to_zenodo_def open_file_def check_address_def add_meta_data_def
      publish_file_def
      dest: checked_deposition_http_error
      split: prod.splits sum.splits option.splits if_splits node.splits verdict.splits)

lemma split_method_no_http_error [simp]: "split_method v sep \<noteq> Inl (HTTPError s)"
  by (cases v) auto

lemma last_item_no_http_error [simp]: "last_item xs \<noteq> Inl (HTTPError s)"
  by (cases xs) auto

lemma new_deposition_id_of_http_error:
  "new_deposition_id_of r = Inl (HTTPError s) \<Longrightarrow> status r = s"
  by (cases "content r")
     (auto simp: new_deposition_id_of_def raise_for_status_def response_json_def
        split: sum.splits if_splits)

lemma new_version_path_http_error:
  "new_version_path m srv i tok pub fpath fb log = (Inl (HTTPError s), log') \<Longrightarrow>
   \<exists>front req r. log' = front @ [req] \<and> srv front req = Some r \<and> status r = s"
  by (auto simp: new_version_path_def create_new_version_def send_def
      raise_for_status_def upload_to_zenodo_def open_file_def check_address_def publish_file_def
      dest: checked_deposition_http_error new_deposition_id_of_http_error
      split: prod.splits sum.splits option.splits if_splits node.splits verdict.splits)

subsection \<open>The claims\<close>

text \<open>
  C1. The response to the search is used whatever its status. Here the service
  answers the search with status 500 and an empty list of hits: no exception is
  raised, and the deposition is created, the file uploaded and the metadata attached.
  With status 500 and an error document, the exception is the \<^verbatim>\<open>KeyError\<close> of the
  missing key, which does not carry the status.
\<close>

theorem search_status_not_checked:
  "process_file sample_machine
     (sample_service \<lparr>status = 500, content = Some (sample_hits [])\<rparr>)
     sample_meta_data ''secret'' False ''data.csv'' [] =
     (Inr (),
      [search_request sandbox_server
         ''metadata.title:\"Sample Dataset\" metadata.creators.name:\"A. Researcher\"'',
       create_request sandbox_server ''secret'',
       upload_request (JStr ''https://sandbox.zenodo.org/api/files/b1'') ''data.csv'' ''secret'' ''a,b'',
       metadata_request sandbox_server (JInt 50) sample_meta_data ''secret''])
   \<and> process_file sample_machine
     (sample_service \<lparr>status = 500, content =
        Some (JObj [(''status'', JInt 500), (''message'', JStr ''Internal Server Error'')])\<rparr>)
     sample_meta_data ''secret'' False ''data.csv'' [] =
     (Inl (KeyError ''hits''),
      [search_request sandbox_server
         ''metadata.title:\"Sample Dataset\" metadata.creators.name:\"A. Researcher\"''])"
  by (simp add: run_simps)

text \<open>
  C2. For a title, an owner that is not empty and two creators, the query is the text
  \<^verbatim>\<open>metadata.title:"T" owners:O metadata.creators.name:"A" OR "B"\<close> in which every
  slash is replaced by a space. With an empty owner the query has no \<^verbatim>\<open>owners:\<close>
  part: it is \<^verbatim>\<open>metadata.title:"T" metadata.creators.name:"A" OR "B"\<close> with every
  slash replaced by a space.
\<close>

theorem search_query_text:
  "ownr \<noteq> [] \<Longrightarrow>
   search_query (JStr t) (JStr ownr) (ItList [JStr a, JStr b]) =
     Inr (map (\<lambda>c. if c = CHR ''/'' then CHR '' '' else c)
           (''metadata.title:\"'' @ t @ ''\" owners:'' @ ownr @
            '' metadata.creators.name:\"'' @ a @ ''\" OR \"'' @ b @ ''\"''))
   \<and> search_query (JStr t) (JStr []) (ItList [JStr a, JStr b]) =
     Inr (map (\<lambda>c. if c = CHR ''/'' then CHR '' '' else c)
           (''metadata.title:\"'' @ t @ ''\"'' @
            '' metadata.creators.name:\"'' @ a @ ''\" OR \"'' @ b @ ''\"''))"
  by (simp add: search_query_def join_method_def replace_char)

theorem search_query_text_witness:
  "''7'' \<noteq> [] \<and>
   search_query (JStr ''a/b'') (JStr ''7'') (ItList [JStr ''X/Y'', JStr ''Z'']) =
     Inr ''metadata.title:\"a b\" owners:7 metadata.creators.name:\"X Y\" OR \"Z\"''
   \<and> search_query (JStr ''a/b'') (JStr []) (ItList [JStr ''X/Y'', JStr ''Z'']) =
     Inr ''metadata.title:\"a b\" metadata.creators.name:\"X Y\" OR \"Z\"''"
  using search_query_text [of "''7''" "''a/b''" "''X/Y''" "''Z''"]
  by simp

text \<open>
  The query is not that text with the slashes taken out: a slash in the title leaves a
  space. And an empty owner leaves no \<^verbatim>\<open>owners:\<close> part at all.
\<close>

theorem search_query_counterexample:
  "search_query (JStr ''a/b'') (JStr ''7'') (ItList [JStr ''X'', JStr ''Z''])
     \<noteq> Inr (query_as_specified ''a/b'' ''7'' ''X'' ''Z'')
   \<and> search_query (JStr ''ab'') (JStr '''') (ItList [JStr ''X'', JStr ''Z''])
     \<noteq> Inr (query_as_specified ''ab'' '''' ''X'' ''Z'')"
  by (simp add: search_query_def join_method_def replace_char query_as_specified_def)

text \<open>
  C3. When the response to the search lists at least one hit, the search returns the
  id of the first hit, its bucket link, and its HTML link with every occurrence of
  \<^verbatim>\<open>deposit\<close> replaced by \<^verbatim>\<open>record\<close>; it has sent the one search request.
\<close>

theorem search_returns_first_hit:
  assumes "search_query title ownr creators = Inr q"
    and "srv log (search_request zenodo_server q) = Some r"
    and "content r = Some doc"
    and "subscript doc ''hits'' = Inr outer"
    and "subscript outer ''hits'' = Inr (JArr (hit # rest))"
    and "subscript hit ''id'' = Inr ident"
    and "subscript hit ''links'' = Inr links"
    and "subscript links ''bucket'' = Inr bucket"
    and "subscript links ''html'' = Inr (JStr html)"
  shows "search_for_deposition srv title ownr creators zenodo_server log =
           (Inr (ident, bucket, JStr (py_replace ''deposit'' ''record'' html)),
            log @ [search_request zenodo_server q])"
  using assms
  by (simp add: search_for_deposition_answered search_result_first_hit)

theorem search_returns_first_hit_witness:
  "search_for_deposition
     (sample_service \<lparr>status = 200, content = Some (sample_hits
        [sample_deposition (JInt 42) ''https://sandbox.zenodo.org/deposit/42'',
         sample_deposition (JInt 41) ''https://sandbox.zenodo.org/deposit/41''])\<rparr>)
     (JStr ''Sample Dataset'') JNull (ItList [JStr ''A. Researcher'']) sandbox_server [] =
     (Inr (JInt 42, JStr ''https://sandbox.zenodo.org/api/files/b1'',
           JStr ''https://sandbox.zenodo.org/record/42''),
      [search_request sandbox_server
         ''metadata.title:\"Sample Dataset\" metadata.creators.name:\"A. Researcher\"''])"
proof -
  let ?hit = "sample_deposition (JInt 42) ''https://sandbox.zenodo.org/deposit/42''"
  let ?rest = "[sample_deposition (JInt 41) ''https://sandbox.zenodo.org/deposit/41'']"
  let ?r = "\<lparr>status = 200, content = Some (sample_hits (?hit # ?rest))\<rparr>"
  let ?q = "''metadata.title:\"Sample Dataset\" metadata.creators.name:\"A. Researcher\"''"
  have q: "search_query (JStr ''Sample Dataset'') JNull (ItList [JStr ''A. Researcher'']) = Inr ?q"
    by (simp add: search_query_def join_method_def py_replace.simps)
  have r: "sample_service ?r [] (search_request sandbox_server ?q) = Some ?r"
    by (simp add: sample_service_def search_request_def)
  have "search_for_deposition (sample_service ?r) (JStr ''Sample Dataset'') JNull
          (ItList [JStr ''A. Researcher'']) sandbox_server [] =
        (Inr (JInt 42, JStr ''https://sandbox.zenodo.org/api/files/b1'',
              JStr (py_replace ''deposit'' ''record'' ''https://sandbox.zenodo.org/deposit/42'')),
         [] @ [search_request sandbox_server ?q])"
    by (rule search_returns_first_hit [where srv = "sample_service ?r" and log = "[]"
          and doc = "sample_hits (?hit # ?rest)"
          and outer = "JObj [(''hits'', JArr (?hit # ?rest))]" and hit = ?hit and rest = ?rest
          and links = "JObj [(''bucket'', JStr ''https://sandbox.zenodo.org/api/files/b1''),
                  (''html'', JStr ''https://sandbox.zenodo.org/deposit/42''),
                  (''latest_draft'',
                   JStr ''https://sandbox.zenodo.org/api/deposit/depositions/43'')]", OF q r])
       (simp_all add: sample_hits_def sample_deposition_def)
  then show ?thesis by (simp add: py_replace.simps)
qed

text \<open>
  The substitution is not made once only: in a link where \<^verbatim>\<open>deposit\<close> occurs twice,
  both occurrences are replaced.
\<close>

theorem record_url_counterexample:
  "search_for_deposition
     (sample_service \<lparr>status = 200, content = Some (sample_hits
        [sample_deposition (JInt 7) ''https://deposit.example.org/deposit/7''])\<rparr>)
     (JStr ''Sample Dataset'') JNull (ItList [JStr ''A. Researcher'']) sandbox_server []
   \<noteq> (Inr (JInt 7, JStr ''https://sandbox.zenodo.org/api/files/b1'',
             JStr (substitute_once ''deposit'' ''record'' ''https://deposit.example.org/deposit/7'')),
        [search_request sandbox_server
           ''metadata.title:\"Sample Dataset\" metadata.creators.name:\"A. Researcher\"''])"
  by (simp add: eval_simps)

text \<open>
  C4. When the response to the search lists no hit, the search returns three times
  \<^verbatim>\<open>None\<close>. When that search is the one the main program makes for a file, the
  program goes on with the branch that creates a deposition: the request after the
  search is the one that creates it, and no new-version request is sent.
\<close>

theorem no_hit_creates_deposition:
  assumes "search_query title ownr creators = Inr q"
    and "srv log (search_request zenodo_server q) = Some r"
    and "content r = Some doc"
    and "subscript doc ''hits'' = Inr outer"
    and "subscript outer ''hits'' = Inr inner"
    and "py_iter inner = Inr []"
  shows "search_for_deposition srv title ownr creators zenodo_server log =
           (Inr (JNull, JNull, JNull), log @ [search_request zenodo_server q])
       \<and> (isfile m (abspath m fpath) \<and> search_arguments meta_data = Inr (title, creators)
            \<and> ownr = JNull \<and> zenodo_server = sandbox_server \<longrightarrow>
          process_file m srv meta_data token pub fpath log =
            new_deposition_path m srv meta_data token pub fpath (basename (abspath m fpath))
              (log @ [search_request sandbox_server q])
          \<and> take 2 (drop (length log) (snd (process_file m srv meta_data token pub fpath log))) =
              [search_request sandbox_server q, create_request sandbox_server token]
          \<and> NewVersion \<notin> set (calls_after log (snd (process_file m srv meta_data token pub fpath log))))"
proof -
  have found: "search_for_deposition srv title ownr creators zenodo_server log =
           (Inr (JNull, JNull, JNull), log @ [search_request zenodo_server q])"
    using assms by (simp add: search_for_deposition_answered search_result_no_hit)
  have "process_file m srv meta_data token pub fpath log =
            new_deposition_path m srv meta_data token pub fpath (basename (abspath m fpath))
              (log @ [search_request sandbox_server q])
          \<and> take 2 (drop (length log) (snd (process_file m srv meta_data token pub fpath log))) =
              [search_request sandbox_server q, create_request sandbox_server token]
          \<and> NewVersion \<notin> set (calls_after log (snd (process_file m srv meta_data token pub fpath log)))"
    if main: "isfile m (abspath m fpath)" "search_arguments meta_data = Inr (title, creators)"
      "ownr = JNull" "zenodo_server = sandbox_server"
  proof -
    have branch: "process_file m srv meta_data token pub fpath log =
            new_deposition_path m srv meta_data token pub fpath (basename (abspath m fpath))
              (log @ [search_request sandbox_server q])"
      using process_file_branches [OF main(1,2), of srv log JNull JNull JNull
          "log @ [search_request sandbox_server q]" token pub] found main(3,4)
      by simp
    obtain reqs where reqs:
      "snd (new_deposition_path m srv meta_data token pub fpath (basename (abspath m fpath))
              (log @ [search_request sandbox_server q])) =
         (log @ [search_request sandbox_server q]) @ create_request sandbox_server token # reqs"
      "set (map call_site reqs) \<subseteq> {UploadFile, AttachMetadata, Publish}"
      using new_deposition_path_starts by blast
    show ?thesis
      using branch reqs
      by (auto simp: calls_after_def search_request_def create_request_def)
  qed
  with found show ?thesis by blast
qed

theorem no_hit_creates_deposition_witness:
  "search_for_deposition (sample_service \<lparr>status = 200, content = Some (sample_hits [])\<rparr>)
     (JStr ''Sample Dataset'') JNull (ItGen [Inr (JStr ''A. Researcher'')]) sandbox_server [] =
     (Inr (JNull, JNull, JNull),
      [search_request sandbox_server
         ''metadata.title:\"Sample Dataset\" metadata.creators.name:\"A. Researcher\"''])
   \<and> take 2 (snd (process_file sample_machine
        (sample_service \<lparr>status = 200, content = Some (sample_hits [])\<rparr>)
        sample_meta_data ''secret'' True ''data.csv'' [])) =
     [search_request sandbox_server
         ''metadata.title:\"Sample Dataset\" metadata.creators.name:\"A. Researcher\"'',
      create_request sandbox_server ''secret'']
   \<and> calls_after [] (snd (process_file sample_machine
        (sample_service \<lparr>status = 200, content = Some (sample_hits [])\<rparr>)
        sample_meta_data ''secret'' True ''data.csv'' [])) =
     [Search, CreateDeposition, UploadFile, AttachMetadata, Publish]"
proof -
  let ?r = "\<lparr>status = 200, content = Some (sample_hits [])\<rparr>"
  let ?q = "''metadata.title:\"Sample Dataset\" metadata.creators.name:\"A. Researcher\"''"
  have r: "sample_service ?r [] (search_request sandbox_server ?q) = Some ?r"
    by (simp add: sample_service_def search_request_def)
  have c: "content ?r = Some (sample_hits [])"
    by simp
  have d: "subscript (sample_hits []) ''hits'' = Inr (JObj [(''hits'', JArr [])])"
    by (simp add: sample_hits_def)
  have e: "subscript (JObj [(''hits'', JArr [])]) ''hits'' = Inr (JArr [])"
    by simp
  have f: "py_iter (JArr []) = Inr []"
    by simp
  note inst = no_hit_creates_deposition [where srv = "sample_service ?r" and log = "[]"
      and m = sample_machine and fpath = "''data.csv''" and meta_data = sample_meta_data
      and token = "''secret''" and pub = True, OF sample_query r c d e f]
  have pre: "isfile sample_machine (abspath sample_machine ''data.csv'')
      \<and> search_arguments sample_meta_data =
          Inr (JStr ''Sample Dataset'', ItGen [Inr (JStr ''A. Researcher'')])
      \<and> JNull = JNull \<and> sandbox_server = sandbox_server"
    using sample_file sample_arguments by simp
  have found: "search_for_deposition (sample_service ?r) (JStr ''Sample Dataset'') JNull
      (ItGen [Inr (JStr ''A. Researcher'')]) sandbox_server [] =
      (Inr (JNull, JNull, JNull), [search_request sandbox_server ?q])"
    using inst by simp
  have "take 2 (drop (length ([] :: request list)) (snd (process_file sample_machine
      (sample_service ?r) sample_meta_data ''secret'' True ''data.csv'' []))) =
      [search_request sandbox_server ?q, create_request sandbox_server ''secret'']"
    using inst pre by blast
  then have first_two: "take 2 (snd (process_file sample_machine
      (sample_service ?r) sample_meta_data ''secret'' True ''data.csv'' [])) =
      [search_request sandbox_server ?q, create_request sandbox_server ''secret'']"
    by simp
  have sites: "calls_after [] (snd (process_file sample_machine (sample_service ?r)
          sample_meta_data ''secret'' True ''data.csv'' [])) =
        [Search, CreateDeposition, UploadFile, AttachMetadata, Publish]"
    by (simp add: run_simps)
  from found first_two sites show ?thesis by (intro conjI)
qed

text \<open>
  C5. \<open>create_new_version\<close> takes what follows the last slash of the
  \<^verbatim>\<open>latest_draft\<close> link of the first response as the id of the new draft, sends a GET
  for that id, and returns the id, the bucket link and the HTML link (with
  \<^verbatim>\<open>deposit\<close> replaced by \<^verbatim>\<open>record\<close>) of the second response.
\<close>

theorem new_version_reads_latest_draft:
  assumes "srv log (newversion_request zenodo_server deposition_id token) = Some ra"
    and "raise_for_status ra = Inr ()"
    and "content ra = Some doca"
    and "subscript doca ''links'' = Inr linksa"
    and "subscript linksa ''latest_draft'' = Inr (JStr (front @ ''/'' @ new_id))"
    and "CHR ''/'' \<notin> set new_id"
    and "srv (log @ [newversion_request zenodo_server deposition_id token])
           (fetch_request zenodo_server new_id token) = Some rb"
    and "raise_for_status rb = Inr ()"
    and "content rb = Some docb"
    and "subscript docb ''id'' = Inr ident"
    and "subscript docb ''links'' = Inr linksb"
    and "subscript linksb ''bucket'' = Inr bucket"
    and "subscript linksb ''html'' = Inr (JStr html)"
  shows "create_new_version srv deposition_id token zenodo_server log =
           (Inr (ident, bucket, JStr (py_replace ''deposit'' ''record'' html)),
            log @ [newversion_request zenodo_server deposition_id token,
                   \<lparr>call_site = FetchDeposition, http_method = GET,
                    url = zenodo_server @ ''deposit/depositions/'' @ new_id,
                    params = [(''access_token'', token)], payload = NoBody, headers = []\<rparr>])"
proof -
  have "new_deposition_id_of ra = Inr new_id"
    using assms(2-6) last_item_split_on [of "CHR ''/''" new_id front]
    by (simp add: new_deposition_id_of_def response_json_def)
  moreover have "checked_deposition rb = Inr (ident, bucket, JStr (py_replace ''deposit'' ''record'' html))"
    using assms(8-13) by (simp add: checked_deposition_def response_json_def deposition_fields_def)
  ultimately show ?thesis
    using assms(1,7) by (simp add: create_new_version_def send_def fetch_request_def)
qed

theorem new_version_reads_latest_draft_witness:
  "create_new_version (sample_service \<lparr>status = 200, content = None\<rparr>) (JInt 42) ''secret''
     sandbox_server [] =
     (Inr (JInt 43, JStr ''https://sandbox.zenodo.org/api/files/b1'',
           JStr ''https://sandbox.zenodo.org/record/43''),
      [newversion_request sandbox_server (JInt 42) ''secret'',
       fetch_request sandbox_server ''43'' ''secret''])"
proof -
  let ?srv = "sample_service \<lparr>status = 200, content = None\<rparr>"
  let ?links = "\<lambda>html. JObj [(''bucket'', JStr ''https://sandbox.zenodo.org/api/files/b1''),
                  (''html'', JStr html),
                  (''latest_draft'',
                   JStr ''https://sandbox.zenodo.org/api/deposit/depositions/43'')]"
  have "create_new_version ?srv (JInt 42) ''secret'' sandbox_server [] =
          (Inr (JInt 43, JStr ''https://sandbox.zenodo.org/api/files/b1'',
                JStr (py_replace ''deposit'' ''record'' ''https://sandbox.zenodo.org/deposit/43'')),
           [] @ [newversion_request sandbox_server (JInt 42) ''secret'',
                 \<lparr>call_site = FetchDeposition, http_method = GET,
                  url = sandbox_server @ ''deposit/depositions/'' @ ''43'',
                  params = [(''access_token'', ''secret'')], payload = NoBody, headers = []\<rparr>])"
    by (rule new_version_reads_latest_draft [where srv = ?srv and log = "[]"
          and ra = "\<lparr>status = 201,
                content = Some (sample_deposition (JInt 42) ''https://sandbox.zenodo.org/deposit/42'')\<rparr>"
          and doca = "sample_deposition (JInt 42) ''https://sandbox.zenodo.org/deposit/42''"
          and linksa = "?links ''https://sandbox.zenodo.org/deposit/42''"
          and front = "''https://sandbox.zenodo.org/api/deposit/depositions''"
          and rb = "\<lparr>status = 200,
                content = Some (sample_deposition (JInt 43) ''https://sandbox.zenodo.org/deposit/43'')\<rparr>"
          and docb = "sample_deposition (JInt 43) ''https://sandbox.zenodo.org/deposit/43''"
          and linksb = "?links ''https://sandbox.zenodo.org/deposit/43''"])
       (simp_all add: sample_service_def newversion_request_def fetch_request_def
          raise_for_status_def sample_deposition_def)
  then show ?thesis by (simp add: py_replace.simps fetch_request_def)
qed

text \<open>
  C6. When the search returns an id that is true, no request attaches metadata; the
  requests for the file come from the search, the new version, the fetch, the upload
  and the publication, in this order and up to the first failure; they start with the
  search and the new-version request for the id found; and when the file is done
  without an exception they are the first four, followed by the publication exactly
  when it was asked for.
\<close>

theorem existing_deposition_calls:
  assumes "isfile m (abspath m fpath)"
    and "search_arguments meta_data = Inr (title, creators)"
    and "search_for_deposition srv title JNull creators sandbox_server log =
           (Inr (found_id, bucket, record_url), log1)"
    and "truthy found_id"
  shows "AttachMetadata \<notin> set (calls_after log (snd (process_file m srv meta_data token pub fpath log)))
       \<and> prefix (calls_after log (snd (process_file m srv meta_data token pub fpath log)))
           [Search, NewVersion, FetchDeposition, UploadFile, Publish]
       \<and> (\<exists>q. take 2 (drop (length log) (snd (process_file m srv meta_data token pub fpath log))) =
              [search_request sandbox_server q, newversion_request sandbox_server found_id token])
       \<and> (fst (process_file m srv meta_data token pub fpath log) = Inr () \<longrightarrow>
            calls_after log (snd (process_file m srv meta_data token pub fpath log)) =
              [Search, NewVersion, FetchDeposition, UploadFile] @ (if pub then [Publish] else []))"
proof -
  let ?fb = "basename (abspath m fpath)"
  have branch: "process_file m srv meta_data token pub fpath log =
      new_version_path m srv found_id token pub fpath ?fb log1"
    using process_file_branches [OF assms(1-3)] assms(4) by simp
  obtain q where q: "log1 = log @ [search_request sandbox_server q]"
    using search_for_deposition_log [OF assms(3)] by auto
  obtain x log2 where run: "new_version_path m srv found_id token pub fpath ?fb log1 = (x, log2)"
    by (cases "new_version_path m srv found_id token pub fpath ?fb log1")
  from new_version_path_calls [OF run] obtain reqs where reqs:
    "log2 = log1 @ newversion_request sandbox_server found_id token # reqs"
    "prefix (map call_site reqs) [FetchDeposition, UploadFile, Publish]"
    "x = Inr () \<longrightarrow> map call_site reqs = [FetchDeposition, UploadFile] @ (if pub then [Publish] else [])"
    by blast
  have sites: "calls_after log log2 = Search # NewVersion # map call_site reqs"
    using q reqs(1) by (simp add: calls_after_def search_request_def newversion_request_def)
  have "AttachMetadata \<notin> set (map call_site reqs)"
    using set_mono_prefix [OF reqs(2)] by auto
  moreover have "take 2 (drop (length log) log2) =
      [search_request sandbox_server q, newversion_request sandbox_server found_id token]"
    using q reqs(1) by simp
  ultimately show ?thesis
    using branch run sites reqs(2,3) by auto
qed

theorem existing_deposition_calls_witness:
  "truthy (JInt 42)
   \<and> calls_after [] (snd (process_file sample_machine
        (sample_service \<lparr>status = 200, content = Some (sample_hits
           [sample_deposition (JInt 42) ''https://sandbox.zenodo.org/deposit/42''])\<rparr>)
        sample_meta_data ''secret'' True ''data.csv'' [])) =
     [Search, NewVersion, FetchDeposition, UploadFile, Publish]
   \<and> snd (process_file sample_machine
        (sample_service \<lparr>status = 200, content = Some (sample_hits
           [sample_deposition (JInt 42) ''https://sandbox.zenodo.org/deposit/42''])\<rparr>)
        sample_meta_data ''secret'' True ''data.csv'' []) =
     [search_request sandbox_server
        ''metadata.title:\"Sample Dataset\" metadata.creators.name:\"A. Researcher\"'',
      newversion_request sandbox_server (JInt 42) ''secret'',
      fetch_request sandbox_server ''43'' ''secret'',
      upload_request (JStr ''https://sandbox.zenodo.org/api/files/b1'') ''data.csv'' ''secret'' ''a,b'',
      publish_request sandbox_server (JInt 43) ''secret'']"
proof -
  let ?hit = "sample_deposition (JInt 42) ''https://sandbox.zenodo.org/deposit/42''"
  let ?srv = "sample_service \<lparr>status = 200, content = Some (sample_hits [?hit])\<rparr>"
  let ?q = "''metadata.title:\"Sample Dataset\" metadata.creators.name:\"A. Researcher\"''"
  let ?run = "process_file sample_machine ?srv sample_meta_data ''secret'' True ''data.csv'' []"
  have found: "search_for_deposition ?srv (JStr ''Sample Dataset'') JNull
      (ItGen [Inr (JStr ''A. Researcher'')]) sandbox_server [] =
      (Inr (JInt 42, JStr ''https://sandbox.zenodo.org/api/files/b1'',
            JStr ''https://sandbox.zenodo.org/record/42''),
       [search_request sandbox_server ?q])"
    by (simp add: run_simps)
  have truthy: "truthy (JInt 42)"
    by simp
  note inst = existing_deposition_calls [where token = "''secret''" and pub = True,
      OF sample_file sample_arguments found truthy]
  have ok: "fst ?run = Inr ()"
    by (simp add: run_simps)
  from inst ok have sites: "calls_after [] (snd ?run) =
      [Search, NewVersion, FetchDeposition, UploadFile] @ (if True then [Publish] else [])"
    by blast
  have all: "snd ?run =
     [search_request sandbox_server ?q,
      newversion_request sandbox_server (JInt 42) ''secret'',
      fetch_request sandbox_server ''43'' ''secret'',
      upload_request (JStr ''https://sandbox.zenodo.org/api/files/b1'') ''data.csv'' ''secret'' ''a,b'',
      publish_request sandbox_server (JInt 43) ''secret'']"
    by (simp add: run_simps)
  from truthy sites all show ?thesis by simp
qed

text \<open>
  C7. \<open>publish_file\<close> sends one POST, to the server address followed by a slash, the
  id and \<^verbatim>\<open>/actions/publish\<close>, with the token as the query parameter
  \<^verbatim>\<open>access_token\<close>. The address does not continue the server address with
  \<^verbatim>\<open>deposit/depositions\<close>, which the addresses of the new-version, fetch, metadata
  and create requests all do.
\<close>

theorem publish_url:
  "snd (publish_file srv deposition_id filebase token zenodo_server log) =
     log @ [\<lparr>call_site = Publish, http_method = POST,
             url = zenodo_server @ ''/'' @ py_str deposition_id @ ''/actions/publish'',
             params = [(''access_token'', token)], payload = NoBody, headers = []\<rparr>]
   \<and> take (length (zenodo_server @ ''deposit/depositions''))
        (url (publish_request zenodo_server deposition_id token))
       \<noteq> zenodo_server @ ''deposit/depositions''
   \<and> url (newversion_request zenodo_server deposition_id token) =
       zenodo_server @ ''deposit/depositions/'' @ py_str deposition_id @ ''/actions/newversion''
   \<and> url (metadata_request zenodo_server deposition_id meta_data token) =
       zenodo_server @ ''deposit/depositions/'' @ py_str deposition_id
   \<and> url (fetch_request zenodo_server new_id token) =
       zenodo_server @ ''deposit/depositions/'' @ new_id
   \<and> url (create_request zenodo_server token) = zenodo_server @ ''deposit/depositions''"
  by (simp add: publish_file_log publish_request_def newversion_request_def
      metadata_request_def fetch_request_def create_request_def)

text \<open>
  C8. For a file that does not exist, the program raises \<^verbatim>\<open>FileNotFoundError\<close> and
  sends no request.
\<close>

theorem missing_file_no_request:
  "lookup m (abspath m fpath) = None \<Longrightarrow>
   process_file m srv meta_data token pub fpath log =
     (Inl (FileNotFoundError (abspath m fpath)), log)"
  by (simp add: process_file_def isfile_def)

theorem missing_file_no_request_witness:
  "lookup sample_machine (abspath sample_machine ''absent.csv'') = None \<and>
   process_file sample_machine (sample_service \<lparr>status = 200, content = None\<rparr>)
     sample_meta_data ''secret'' True ''absent.csv'' [] =
     (Inl (FileNotFoundError ''/home/user/absent.csv''), [])"
proof -
  have h: "lookup sample_machine (abspath sample_machine ''absent.csv'') = None"
    by (simp add: sample_machine_def)
  show ?thesis
    using h missing_file_no_request [OF h, of "sample_service \<lparr>status = 200, content = None\<rparr>"
        sample_meta_data "''secret''" True "[]"]
    by (simp add: sample_machine_def)
qed

text \<open>
  C9. Where no name \<^verbatim>\<open>filename\<close> is bound at module level, \<open>add_meta_data\<close> raises
  \<^verbatim>\<open>NameError\<close> and sends nothing.
\<close>

theorem add_meta_data_name_error:
  "''filename'' \<notin> set globals \<Longrightarrow>
   add_meta_data globals srv deposition_id meta_data token zenodo_server log =
     (Inl (NameError ''filename''), log)"
  by (simp add: add_meta_data_def)

theorem add_meta_data_name_error_witness:
  "''filename'' \<notin> set [''requests'', ''json''] \<and>
   add_meta_data [''requests'', ''json''] (\<lambda>log req. None) (JInt 7) (JObj []) ''secret''
     sandbox_server [] = (Inl (NameError ''filename''), [])"
  using add_meta_data_name_error [of "[''requests'', ''json'']" "\<lambda>log req. None" "JInt 7" "JObj []"
      "''secret''" sandbox_server "[]"]
  by simp

text \<open>
  C10. When the first hit of the search is well formed, the branch the main program
  takes depends on the truth value of its id alone; with an id that is false (such as
  \<^verbatim>\<open>0\<close> or the empty string) the program creates a deposition although a hit was
  found: the request after the search is the one that creates it, and no new-version
  request is sent.
\<close>

theorem falsy_id_creates_deposition:
  assumes "isfile m (abspath m fpath)"
    and "search_arguments meta_data = Inr (title, creators)"
    and "search_query title JNull creators = Inr q"
    and "srv log (search_request sandbox_server q) = Some r"
    and "content r = Some doc"
    and "subscript doc ''hits'' = Inr outer"
    and "subscript outer ''hits'' = Inr (JArr (hit # rest))"
    and "subscript hit ''id'' = Inr ident"
    and "subscript hit ''links'' = Inr links"
    and "subscript links ''bucket'' = Inr bucket"
    and "subscript links ''html'' = Inr (JStr html)"
  shows "process_file m srv meta_data token pub fpath log =
           (if truthy ident
            then new_version_path m srv ident token pub fpath (basename (abspath m fpath))
                   (log @ [search_request sandbox_server q])
            else new_deposition_path m srv meta_data token pub fpath (basename (abspath m fpath))
                   (log @ [search_request sandbox_server q]))
       \<and> (\<not> truthy ident \<longrightarrow>
            take 2 (drop (length log) (snd (process_file m srv meta_data token pub fpath log))) =
              [search_request sandbox_server q, create_request sandbox_server token]
          \<and> NewVersion \<notin> set (calls_after log (snd (process_file m srv meta_data token pub fpath log))))"
proof -
  have found: "search_for_deposition srv title JNull creators sandbox_server log =
      (Inr (ident, bucket, JStr (py_replace ''deposit'' ''record'' html)),
       log @ [search_request sandbox_server q])"
    using assms(3-11) by (simp add: search_for_deposition_answered search_result_first_hit)
  have branch: "process_file m srv meta_data token pub fpath log =
           (if truthy ident
            then new_version_path m srv ident token pub fpath (basename (abspath m fpath))
                   (log @ [search_request sandbox_server q])
            else new_deposition_path m srv meta_data token pub fpath (basename (abspath m fpath))
                   (log @ [search_request sandbox_server q]))"
    using process_file_branches [OF assms(1,2) found] .
  obtain reqs where reqs:
    "snd (new_deposition_path m srv meta_data token pub fpath (basename (abspath m fpath))
            (log @ [search_request sandbox_server q])) =
       (log @ [search_request sandbox_server q]) @ create_request sandbox_server token # reqs"
    "set (map call_site reqs) \<subseteq> {UploadFile, AttachMetadata, Publish}"
    using new_deposition_path_starts by blast
  have "take 2 (drop (length log) (snd (process_file m srv meta_data token pub fpath log))) =
              [search_request sandbox_server q, create_request sandbox_server token]
          \<and> NewVersion \<notin> set (calls_after log (snd (process_file m srv meta_data token pub fpath log)))"
    if "\<not> truthy ident"
    using that branch reqs
    by (auto simp: calls_after_def search_request_def create_request_def)
  with branch show ?thesis by blast
qed

theorem falsy_id_creates_deposition_witness:
  "\<not> truthy (JInt 0)
   \<and> process_file sample_machine
        (sample_service \<lparr>status = 200, content = Some (sample_hits
           [sample_deposition (JInt 0) ''https://sandbox.zenodo.org/deposit/0''])\<rparr>)
        sample_meta_data ''secret'' False ''data.csv'' [] =
      new_deposition_path sample_machine
        (sample_service \<lparr>status = 200, content = Some (sample_hits
           [sample_deposition (JInt 0) ''https://sandbox.zenodo.org/deposit/0''])\<rparr>)
        sample_meta_data ''secret'' False ''data.csv'' ''data.csv''
        [search_request sandbox_server
           ''metadata.title:\"Sample Dataset\" metadata.creators.name:\"A. Researcher\"'']
   \<and> calls_after [] (snd (process_file sample_machine
        (sample_service \<lparr>status = 200, content = Some (sample_hits
           [sample_deposition (JInt 0) ''https://sandbox.zenodo.org/deposit/0''])\<rparr>)
        sample_meta_data ''secret'' False ''data.csv'' [])) =
     [Search, CreateDeposition, UploadFile, AttachMetadata]"
proof -
  let ?hit = "sample_deposition (JInt 0) ''https://sandbox.zenodo.org/deposit/0''"
  let ?r = "\<lparr>status = 200, content = Some (sample_hits [?hit])\<rparr>"
  let ?q = "''metadata.title:\"Sample Dataset\" metadata.creators.name:\"A. Researcher\"''"
  let ?links = "JObj [(''bucket'', JStr ''https://sandbox.zenodo.org/api/files/b1''),
                  (''html'', JStr ''https://sandbox.zenodo.org/deposit/0''),
                  (''latest_draft'',
                   JStr ''https://sandbox.zenodo.org/api/deposit/depositions/43'')]"
  have r: "sample_service ?r [] (search_request sandbox_server ?q) = Some ?r"
    by (simp add: sample_service_def search_request_def)
  have c: "content ?r = Some (sample_hits [?hit])"
    by simp
  have d: "subscript (sample_hits [?hit]) ''hits'' = Inr (JObj [(''hits'', JArr [?hit])])"
    by (simp add: sample_hits_def)
  have e: "subscript (JObj [(''hits'', JArr [?hit])]) ''hits'' = Inr (JArr (?hit # []))"
    by simp
  have f: "subscript ?hit ''id'' = Inr (JInt 0)"
    by (simp add: sample_deposition_def)
  have g: "subscript ?hit ''links'' = Inr ?links"
    by (simp add: sample_deposition_def)
  have h: "subscript ?links ''bucket'' = Inr (JStr ''https://sandbox.zenodo.org/api/files/b1'')"
    by simp
  have i: "subscript ?links ''html'' = Inr (JStr ''https://sandbox.zenodo.org/deposit/0'')"
    by simp
  note inst = falsy_id_creates_deposition [where srv = "sample_service ?r" and log = "[]"
      and token = "''secret''" and pub = False,
      OF sample_file sample_arguments sample_query r c d e f g h i]
  have falsy: "\<not> truthy (JInt 0)"
    by simp
  have base: "basename (abspath sample_machine ''data.csv'') = ''data.csv''"
    by (simp add: basename_def sample_machine_def)
  have branch: "process_file sample_machine (sample_service ?r) sample_meta_data ''secret'' False
      ''data.csv'' [] =
      new_deposition_path sample_machine (sample_service ?r) sample_meta_data ''secret'' False
        ''data.csv'' ''data.csv'' [search_request sandbox_server ?q]"
    using inst falsy base by simp
  have sites: "calls_after [] (snd (process_file sample_machine (sample_service ?r)
      sample_meta_data ''secret'' False ''data.csv'' [])) =
      [Search, CreateDeposition, UploadFile, AttachMetadata]"
    by (simp add: run_simps)
  from falsy branch sites show ?thesis by (intro conjI)
qed

end
